theory Spec2Isabelle
  imports Main
begin

section \<open>Python values and string primitives\<close>

text \<open>
  The development embeds \<^verbatim>\<open>database/postgresql.py\<close> (class \<^verbatim>\<open>PostgreSQLDatabase\<close>).
  A Python \<^verbatim>\<open>str\<close> is modelled as a \<^typ>\<open>string\<close> whose characters are the code points
  0..255. On that range the regular-expression class \<^verbatim>\<open>\d\<close> and \<^verbatim>\<open>int(ch)\<close> accept exactly the
  ten characters \<^verbatim>\<open>0\<close>..\<^verbatim>\<open>9\<close>. Exceptions are values of the type \<open>error\<close>; a function that can
  raise returns \<open>error + 'a\<close> with \<open>Inl\<close> for the exception.
\<close>

datatype error = InvalidCNPJException | ValueError | IndexError | DatabaseError

text \<open>\<^verbatim>\<open>\d\<close> on one character.\<close>

definition isdecimal :: "char \<Rightarrow> bool" where
  "isdecimal c = (48 \<le> (of_char c :: nat) \<and> (of_char c :: nat) \<le> 57)"

text \<open>\<^verbatim>\<open>int(num)\<close> for a one-character string \<^verbatim>\<open>num\<close>: raises \<^verbatim>\<open>ValueError\<close> unless it is a digit.\<close>

definition int_of_char :: "char \<Rightarrow> error + int" where
  "int_of_char c = (if isdecimal c then Inr (int (of_char c) - 48) else Inl ValueError)"

text \<open>\<^verbatim>\<open>str(n)\<close> for an integer: decimal notation, with a minus sign for negative numbers.\<close>

fun str_nat :: "nat \<Rightarrow> string" where
  "str_nat n =
     (if n < 10 then [char_of (48 + n)]
      else str_nat (n div 10) @ [char_of (48 + n mod 10)])"

definition str_int :: "int \<Rightarrow> string" where
  "str_int i = (if i < 0 then CHR ''-'' # str_nat (nat (- i)) else str_nat (nat i))"

text \<open>
  \<^verbatim>\<open>s.zfill(width)\<close>: a string at least \<^verbatim>\<open>width\<close> long is returned as it is; otherwise zeros are
  inserted on the left, after a leading sign character when there is one.
\<close>

definition zfill :: "nat \<Rightarrow> string \<Rightarrow> string" where
  "zfill width s =
     (if width \<le> length s then s
      else (case s of
              [] \<Rightarrow> replicate width (CHR ''0'')
            | c # rest \<Rightarrow>
                if c = CHR ''+'' \<or> c = CHR ''-''
                then c # replicate (width - length s) (CHR ''0'') @ rest
                else replicate (width - length s) (CHR ''0'') @ s))"

section \<open>The identifier codec\<close>

text \<open>
  \<^verbatim>\<open>_cnpj_only_digits\<close>: \<^verbatim>\<open>re.sub(r"[^\d]", "", cnpj)\<close>, then \<^verbatim>\<open>zfill(14)\<close> unless nothing is left.
\<close>

definition cnpj_only_digits :: "string \<Rightarrow> string" where
  "cnpj_only_digits cnpj =
     (let only_digits = filter isdecimal cnpj
      in if only_digits = [] then only_digits else zfill 14 only_digits)"

text \<open>
  \<^verbatim>\<open>_calculate_cnpj_dv_digit\<close>. The list comprehension over \<^verbatim>\<open>zip(cnpj_to_weight, weights)\<close> is
  \<open>weighted_digits\<close>: it stops at the first character \<^verbatim>\<open>int\<close> rejects. \<^verbatim>\<open>weights[1:]\<close> is \<open>tl\<close>.
\<close>

definition weights :: "int list" where
  "weights = [6, 5, 4, 3, 2, 9, 8, 7, 6, 5, 4, 3, 2]"

fun weighted_digits :: "(char \<times> int) list \<Rightarrow> error + int list" where
  "weighted_digits [] = Inr []"
| "weighted_digits ((num, weight) # rest) =
     (case int_of_char num of
        Inl e \<Rightarrow> Inl e
      | Inr d \<Rightarrow>
          (case weighted_digits rest of
             Inl e \<Rightarrow> Inl e
           | Inr ds \<Rightarrow> Inr (d * weight # ds)))"

definition calculate_cnpj_dv_digit :: "string \<Rightarrow> string \<Rightarrow> error + string" where
  "calculate_cnpj_dv_digit cnpj_without_dv first_digit =
     (let ws = (if first_digit = [] then tl weights else weights);
          cnpj_to_weight = cnpj_without_dv @ first_digit
      in case weighted_digits (zip cnpj_to_weight ws) of
           Inl e \<Rightarrow> Inl e
         | Inr wd \<Rightarrow>
             (let sum_remainder = sum_list wd mod 11
              in if sum_remainder < 2 then Inr ''0''
                 else Inr (str_int (11 - sum_remainder))))"

text \<open>\<^verbatim>\<open>_generate_cnpj_dv\<close>: the first call leaves \<^verbatim>\<open>first_digit\<close> at its default \<^verbatim>\<open>""\<close>.\<close>

definition generate_cnpj_dv :: "string \<Rightarrow> error + string" where
  "generate_cnpj_dv cnpj_without_dv =
     (case calculate_cnpj_dv_digit cnpj_without_dv [] of
        Inl e \<Rightarrow> Inl e
      | Inr first_digit \<Rightarrow>
          (case calculate_cnpj_dv_digit cnpj_without_dv first_digit of
             Inl e \<Rightarrow> Inl e
           | Inr second_digit \<Rightarrow> Inr (first_digit @ second_digit)))"

text \<open>
  \<^verbatim>\<open>_is_valid_cnpj\<close>. The slices \<^verbatim>\<open>s[:-2]\<close> and \<^verbatim>\<open>s[-2:]\<close> are \<open>take (length s - 2) s\<close> and
  \<open>drop (length s - 2) s\<close> (subtraction on \<^typ>\<open>nat\<close> stops at 0, as the slice bounds do).
\<close>

definition is_valid_cnpj :: "string \<Rightarrow> error + bool" where
  "is_valid_cnpj cnpj =
     (let digits = cnpj_only_digits cnpj
      in if digits = [] \<or> length digits > 14 then Inr False
         else (let cnpj_without_dv = take (length digits - 2) digits
               in case generate_cnpj_dv cnpj_without_dv of
                    Inl e \<Rightarrow> Inl e
                  | Inr generated_dv \<Rightarrow>
                      Inr (drop (length digits - 2) digits = generated_dv)))"

text \<open>
  \<^verbatim>\<open>_format_full_cnpj\<close>: the mask \<^verbatim>\<open>"{}.{}.{}/{}-{}"\<close> filled with the slices
  \<^verbatim>\<open>[:2]\<close>, \<^verbatim>\<open>[2:5]\<close>, \<^verbatim>\<open>[5:8]\<close>, \<^verbatim>\<open>[8:12]\<close> and \<^verbatim>\<open>[12:]\<close>.
\<close>

definition format_full_cnpj :: "string \<Rightarrow> string" where
  "format_full_cnpj cnpj =
     (let digits = cnpj_only_digits cnpj
      in take 2 digits @ ''.'' @ take 3 (drop 2 digits) @ ''.'' @ take 3 (drop 5 digits)
         @ ''/'' @ take 4 (drop 8 digits) @ ''-'' @ drop 12 digits)"

text \<open>\<^verbatim>\<open>_split_cnpj\<close>: the slices \<^verbatim>\<open>[:8]\<close>, \<^verbatim>\<open>[8:12]\<close> and \<^verbatim>\<open>[12:]\<close> of the normalised form.\<close>

definition split_cnpj :: "string \<Rightarrow> string \<times> string \<times> string" where
  "split_cnpj cnpj =
     (let digits = cnpj_only_digits cnpj
      in (take 8 digits, take 4 (drop 8 digits), drop 12 digits))"


section \<open>The check digits as the specification words them\<close>

text \<open>
  One check digit: the weights are applied to the digits most-significant first, the
  products are summed, and the sum is reduced modulo 11; a remainder below 2 gives the
  digit 0, any other remainder \<open>r\<close> the decimal digit \<open>11 - r\<close>.
\<close>

definition digit_value :: "char \<Rightarrow> int" where
  "digit_value c = int (of_char c) - 48"

definition mod11_digit :: "int list \<Rightarrow> string \<Rightarrow> char" where
  "mod11_digit ws s =
     (let r = (\<Sum>(c, w) \<leftarrow> zip s ws. digit_value c * w) mod 11
      in if r < 2 then CHR ''0'' else char_of (48 + nat (11 - r)))"

definition checkDigits :: "string \<Rightarrow> string" where
  "checkDigits base12 =
     (let firstDigit = mod11_digit [5, 4, 3, 2, 9, 8, 7, 6, 5, 4, 3, 2] base12;
          secondDigit = mod11_digit [6, 5, 4, 3, 2, 9, 8, 7, 6, 5, 4, 3, 2] (base12 @ [firstDigit])
      in [firstDigit, secondDigit])"


section \<open>The row mapper\<close>

text \<open>
  A column value of a row. Besides \<^verbatim>\<open>None\<close>, strings and integers, the driver hands over
  values of other types (decimals, dates, booleans); such a value is \<open>PyObj r\<close>, where \<open>r\<close>
  is what \<^verbatim>\<open>str\<close> returns on it. It is not a string and it is not equal to one.
\<close>

datatype pyval = PyNone | PyStr string | PyInt int | PyObj string

fun py_str :: "pyval \<Rightarrow> string" where
  "py_str PyNone = ''None''"
| "py_str (PyStr s) = s"
| "py_str (PyInt i) = str_int i"
| "py_str (PyObj r) = r"

text \<open>\<^verbatim>\<open>_always_str_or_none\<close>; \<^verbatim>\<open>isinstance(data, str)\<close> is the case \<open>PyStr\<close>.\<close>

definition always_str_or_none :: "pyval \<Rightarrow> string option" where
  "always_str_or_none data =
     (if data = PyStr ''None'' \<or> data = PyStr [] \<or> data = PyNone then None
      else (case data of
              PyStr s \<Rightarrow> Some s
            | _ \<Rightarrow> Some (py_str data)))"

text \<open>
  \<^verbatim>\<open>Company\<close> and \<^verbatim>\<open>Partner\<close> come from the module \<^verbatim>\<open>companies\<close>; their fields are the keyword
  arguments the two mappers pass, in that order.
\<close>

record company =
  cnpj_basico :: string
  cnpj_ordem :: string
  cnpj_dv :: string
  cnpj_completo :: string
  cnpj_completo_apenas_numeros :: string
  identificador_matriz_filial :: "string option"
  nome_fantasia :: "string option"
  situacao_cadastral :: "string option"
  data_situacao_cadastral :: "string option"
  motivo_situacao_cadastral :: "string option"
  nome_cidade_exterior :: "string option"
  data_inicio_atividade :: "string option"
  cnae_fiscal_secundario :: "string option"
  tipo_logradouro :: "string option"
  logradouro :: "string option"
  numero :: "string option"
  complemento :: "string option"
  bairro :: "string option"
  cep :: "string option"
  uf :: "string option"
  ddd_telefone_1 :: "string option"
  ddd_telefone_2 :: "string option"
  ddd_telefone_fax :: "string option"
  correio_eletronico :: "string option"
  situacao_especial :: "string option"
  data_situacao_especial :: "string option"
  pais :: "string option"
  municipio :: "string option"
  razao_social :: "string option"
  natureza_juridica :: "string option"
  qualificacao_do_responsavel :: "string option"
  capital_social :: "string option"
  porte :: "string option"
  ente_federativo_responsavel :: "string option"
  opcao_pelo_simples :: "string option"
  data_opcao_pelo_simples :: "string option"
  data_exclusao_pelo_simples :: "string option"
  opcao_pelo_mei :: "string option"
  data_opcao_pelo_mei :: "string option"
  data_exclusao_pelo_mei :: "string option"
  cnae :: "string option"

type_synonym row = "pyval list"

text \<open>
  \<^verbatim>\<open>_format_company_data\<close>. The arguments \<^verbatim>\<open>formatted_data[3]\<close> .. \<^verbatim>\<open>formatted_data[38]\<close> are
  evaluated in order, and the first index that is out of range raises \<^verbatim>\<open>IndexError\<close>: that
  happens exactly when the row has fewer than 39 columns.
\<close>

definition format_company_data :: "row \<Rightarrow> string \<Rightarrow> error + company" where
  "format_company_data data cnpj =
     (let cnpj_only = cnpj_only_digits cnpj;
          (cnpj_basico, cnpj_ordem, cnpj_dv) = split_cnpj cnpj;
          full_cnpj = format_full_cnpj cnpj;
          formatted_data = map always_str_or_none data
      in if length formatted_data < 39 then Inl IndexError
         else Inr \<lparr>cnpj_basico = cnpj_basico,
                cnpj_ordem = cnpj_ordem,
                cnpj_dv = cnpj_dv,
                cnpj_completo = full_cnpj,
                cnpj_completo_apenas_numeros = cnpj_only,
                identificador_matriz_filial = formatted_data ! 3,
                nome_fantasia = formatted_data ! 4,
                situacao_cadastral = formatted_data ! 5,
                data_situacao_cadastral = formatted_data ! 6,
                motivo_situacao_cadastral = formatted_data ! 7,
                nome_cidade_exterior = formatted_data ! 8,
                data_inicio_atividade = formatted_data ! 9,
                cnae_fiscal_secundario = formatted_data ! 10,
                tipo_logradouro = formatted_data ! 11,
                logradouro = formatted_data ! 12,
                numero = formatted_data ! 13,
                complemento = formatted_data ! 14,
                bairro = formatted_data ! 15,
                cep = formatted_data ! 16,
                uf = formatted_data ! 17,
                ddd_telefone_1 = formatted_data ! 18,
                ddd_telefone_2 = formatted_data ! 19,
                ddd_telefone_fax = formatted_data ! 20,
                correio_eletronico = formatted_data ! 21,
                situacao_especial = formatted_data ! 22,
                data_situacao_especial = formatted_data ! 23,
                pais = formatted_data ! 24,
                municipio = formatted_data ! 25,
                razao_social = formatted_data ! 26,
                natureza_juridica = formatted_data ! 27,
                qualificacao_do_responsavel = formatted_data ! 28,
                capital_social = formatted_data ! 29,
                porte = formatted_data ! 30,
                ente_federativo_responsavel = formatted_data ! 31,
                opcao_pelo_simples = formatted_data ! 32,
                data_opcao_pelo_simples = formatted_data ! 33,
                data_exclusao_pelo_simples = formatted_data ! 34,
                opcao_pelo_mei = formatted_data ! 35,
                data_opcao_pelo_mei = formatted_data ! 36,
                data_exclusao_pelo_mei = formatted_data ! 37,
                cnae = formatted_data ! 38\<rparr>)"

record partner =
  cnpj_basico :: string
  cnpj_ordem :: string
  cnpj_dv :: string
  cnpj_completo :: string
  cnpj_completo_apenas_numeros :: string
  identificador_socio :: "string option"
  razao_social :: "string option"
  cnpj_cpf_socio :: "string option"
  qualificacao_socio :: "string option"
  data_entrada_sociedade :: "string option"
  pais_socio_estrangeiro :: "string option"
  numero_cpf_representante_legal :: "string option"
  nome_representante_legal :: "string option"
  qualificacao_representante_legal :: "string option"
  faixa_etaria :: "string option"

text \<open>
  \<^verbatim>\<open>_format_partner_data\<close>: the indices are 1 .. 10, so a row of fewer than 11 columns raises
  \<^verbatim>\<open>IndexError\<close>.
\<close>

definition format_partner_data :: "row \<Rightarrow> string \<Rightarrow> error + partner" where
  "format_partner_data data cnpj =
     (let cnpj_only = cnpj_only_digits cnpj;
          (cnpj_basico, cnpj_ordem, cnpj_dv) = split_cnpj cnpj;
          full_cnpj = format_full_cnpj cnpj;
          formatted_data = map always_str_or_none data
      in if length formatted_data < 11 then Inl IndexError
         else Inr \<lparr>cnpj_basico = cnpj_basico,
                cnpj_ordem = cnpj_ordem,
                cnpj_dv = cnpj_dv,
                cnpj_completo = full_cnpj,
                cnpj_completo_apenas_numeros = cnpj_only,
                identificador_socio = formatted_data ! 1,
                razao_social = formatted_data ! 2,
                cnpj_cpf_socio = formatted_data ! 3,
                qualificacao_socio = formatted_data ! 4,
                data_entrada_sociedade = formatted_data ! 5,
                pais_socio_estrangeiro = formatted_data ! 6,
                numero_cpf_representante_legal = formatted_data ! 7,
                nome_representante_legal = formatted_data ! 8,
                qualificacao_representante_legal = formatted_data ! 9,
                faixa_etaria = formatted_data ! 10\<rparr>)"

section \<open>The repository\<close>

text \<open>
  A command is \<^verbatim>\<open>SELECT * FROM table WHERE column = %(parameter)s AND ...\<close>: the table and
  the pairs of a column and the parameter it is compared with. The parameters of a call are
  the dictionary \<^verbatim>\<open>data\<close>, in the order of its literal.
\<close>

datatype command = Select string "(string \<times> string) list"

type_synonym params = "(string \<times> string) list"

text \<open>
  The row source is the database behind \<^verbatim>\<open>psycopg2\<close>. For a command and its parameters it
  either refuses the connection, fails in \<^verbatim>\<open>cursor.execute\<close>, fails while the cursor is
  iterated, or delivers its rows.
\<close>

datatype fetch = Connect_error | Execute_error | Iteration_error | Fetched "row list"

type_synonym row_source = "command \<Rightarrow> params \<Rightarrow> fetch"

text \<open>
  What the calls of one \<^verbatim>\<open>PostgreSQLDatabase\<close> leave behind: the number of connections and
  of cursors that the code opened and did not close, and the commands it passed to
  \<^verbatim>\<open>cursor.execute\<close>, with their parameters.
\<close>

record db_state =
  open_connections :: nat
  open_cursors :: nat
  executed :: "(command \<times> params) list"

definition connect :: "db_state \<Rightarrow> db_state" where
  "connect st = st\<lparr>open_connections := open_connections st + 1\<rparr>"

definition cursor_enter :: "db_state \<Rightarrow> db_state" where
  "cursor_enter st = st\<lparr>open_cursors := open_cursors st + 1\<rparr>"

definition cursor_exit :: "db_state \<Rightarrow> db_state" where
  "cursor_exit st = st\<lparr>open_cursors := open_cursors st - 1\<rparr>"

definition execute :: "command \<Rightarrow> params \<Rightarrow> db_state \<Rightarrow> db_state" where
  "execute cmd data st = st\<lparr>executed := executed st @ [(cmd, data)]\<rparr>"

text \<open>
  \<^verbatim>\<open>_select\<close>, driven to its end by \<^verbatim>\<open>list(...)\<close>. \<^verbatim>\<open>psycopg2.connect\<close> opens a connection;
  the \<^verbatim>\<open>with\<close> block opens a cursor and closes it on every way out of the block. The
  function has no call that closes the connection.
\<close>

definition select :: "row_source \<Rightarrow> command \<Rightarrow> params \<Rightarrow> db_state \<Rightarrow> (error + row list) \<times> db_state" where
  "select src cmd data st =
     (case src cmd data of
        Connect_error \<Rightarrow> (Inl DatabaseError, st)
      | Execute_error \<Rightarrow>
          (Inl DatabaseError, cursor_exit (execute cmd data (cursor_enter (connect st))))
      | Iteration_error \<Rightarrow>
          (Inl DatabaseError, cursor_exit (execute cmd data (cursor_enter (connect st))))
      | Fetched rows \<Rightarrow>
          (Inr rows, cursor_exit (execute cmd data (cursor_enter (connect st)))))"

definition company_command :: command where
  "company_command =
     Select ''resposta_cnpj''
       [(''estabelecimento_cnpj_basico'', ''cnpj_basico''),
        (''estabelecimento_cnpj_ordem'', ''cnpj_ordem''),
        (''estabelecimento_cnpj_dv'', ''cnpj_dv'')]"

definition partners_command :: command where
  "partners_command = Select ''resposta_socios'' [(''cnpj_basico'', ''cnpj_basico'')]"

text \<open>\<^verbatim>\<open>get_company\<close>; \<^verbatim>\<open>result[0]\<close> of a non-empty list is its head.\<close>

definition get_company :: "row_source \<Rightarrow> string \<Rightarrow> db_state \<Rightarrow> (error + company option) \<times> db_state" where
  "get_company src cnpj st =
     (case is_valid_cnpj cnpj of
        Inl e \<Rightarrow> (Inl e, st)
      | Inr valid \<Rightarrow>
          if \<not> valid then (Inl InvalidCNPJException, st)
          else (let (cnpj_basico, cnpj_ordem, cnpj_dv) = split_cnpj cnpj;
                    data = [(''cnpj_basico'', cnpj_basico), (''cnpj_ordem'', cnpj_ordem),
                            (''cnpj_dv'', cnpj_dv)]
                in case select src company_command data st of
                     (Inl e, st') \<Rightarrow> (Inl e, st')
                   | (Inr result, st') \<Rightarrow>
                       (case result of
                          [] \<Rightarrow> (Inr None, st')
                        | first # _ \<Rightarrow>
                            (case format_company_data first cnpj of
                               Inl e \<Rightarrow> (Inl e, st')
                             | Inr c \<Rightarrow> (Inr (Some c), st')))))"

text \<open>
  The list comprehension of \<^verbatim>\<open>get_partners\<close>: the rows are mapped in order, and the first
  row that cannot be mapped raises.
\<close>

fun format_partners :: "row list \<Rightarrow> string \<Rightarrow> error + partner list" where
  "format_partners [] cnpj = Inr []"
| "format_partners (result # results) cnpj =
     (case format_partner_data result cnpj of
        Inl e \<Rightarrow> Inl e
      | Inr p \<Rightarrow>
          (case format_partners results cnpj of
             Inl e \<Rightarrow> Inl e
           | Inr ps \<Rightarrow> Inr (p # ps)))"

definition get_partners :: "row_source \<Rightarrow> string \<Rightarrow> db_state \<Rightarrow> (error + nat \<times> partner list) \<times> db_state" where
  "get_partners src cnpj st =
     (case is_valid_cnpj cnpj of
        Inl e \<Rightarrow> (Inl e, st)
      | Inr valid \<Rightarrow>
          if \<not> valid then (Inl InvalidCNPJException, st)
          else (let (cnpj_basico, cnpj_ordem, cnpj_dv) = split_cnpj cnpj;
                    data = [(''cnpj_basico'', cnpj_basico)]
                in case select src partners_command data st of
                     (Inl e, st') \<Rightarrow> (Inl e, st')
                   | (Inr results, st') \<Rightarrow>
                       (case format_partners results cnpj of
                          Inl e \<Rightarrow> (Inl e, st')
                        | Inr ps \<Rightarrow> (Inr (length results, ps), st'))))"


section \<open>Check digits\<close>

lemma int_of_char_decimal: "isdecimal c \<Longrightarrow> int_of_char c = Inr (digit_value c)"
  by (simp add: int_of_char_def digit_value_def)

lemma weighted_digits_decimal:
  "\<forall>p \<in> set zs. isdecimal (fst p) \<Longrightarrow>
   weighted_digits zs = Inr (map (\<lambda>(c, w). digit_value c * w) zs)"
  by (induction zs rule: weighted_digits.induct) (simp_all add: int_of_char_decimal)

lemma zip_decimal: "\<forall>c \<in> set s. isdecimal c \<Longrightarrow> \<forall>p \<in> set (zip s ws). isdecimal (fst p)"
  by (auto dest: set_zip_leftD)

lemma str_int_digit: "0 \<le> i \<Longrightarrow> i < 10 \<Longrightarrow> str_int i = [char_of (48 + nat i)]"
  by (simp add: str_int_def)

lemma calculate_cnpj_dv_digit_decimal:
  assumes "\<forall>c \<in> set (s @ fd). isdecimal c"
  shows "calculate_cnpj_dv_digit s fd =
         Inr [mod11_digit (if fd = [] then tl weights else weights) (s @ fd)]"
proof -
  let ?ws = "if fd = [] then tl weights else weights"
  let ?r = "(\<Sum>(c, w) \<leftarrow> zip (s @ fd) ?ws. digit_value c * w) mod 11"
  have w: "weighted_digits (zip (s @ fd) ?ws) =
           Inr (map (\<lambda>(c, w). digit_value c * w) (zip (s @ fd) ?ws))"
    using assms by (intro weighted_digits_decimal zip_decimal)
  have r: "0 \<le> ?r" "?r < 11" by simp_all
  have "\<not> ?r < 2 \<Longrightarrow> str_int (11 - ?r) = [char_of (48 + nat (11 - ?r))]"
    using r by (intro str_int_digit) linarith+
  then show ?thesis
    unfolding calculate_cnpj_dv_digit_def Let_def w mod11_digit_def by simp
qed

lemma isdecimal_mod11_digit: "isdecimal (mod11_digit ws s)"
proof -
  let ?r = "(\<Sum>(c, w) \<leftarrow> zip s ws. digit_value c * w) mod 11"
  have r: "0 \<le> ?r" "?r < 11" by simp_all
  show ?thesis
  proof (cases "?r < 2")
    case True
    then show ?thesis by (simp add: mod11_digit_def isdecimal_def)
  next
    case False
    then have b: "48 + nat (11 - ?r) < 256" "49 \<le> 48 + nat (11 - ?r)" "48 + nat (11 - ?r) \<le> 57"
      using r by linarith+
    then have "of_char (char_of (48 + nat (11 - ?r))) = 48 + nat (11 - ?r)"
      by (simp add: of_char_of)
    then show ?thesis using False b(2,3)
      by (simp add: mod11_digit_def isdecimal_def Let_def)
  qed
qed

lemma generate_cnpj_dv_decimal:
  assumes "\<forall>c \<in> set s. isdecimal c"
  shows "generate_cnpj_dv s = Inr (checkDigits s)"
proof -
  let ?d1 = "mod11_digit (tl weights) s"
  have 1: "calculate_cnpj_dv_digit s [] = Inr [?d1]"
    using calculate_cnpj_dv_digit_decimal [of s "[]"] assms by simp
  have "\<forall>c \<in> set (s @ [?d1]). isdecimal c"
    using assms isdecimal_mod11_digit by simp
  then have 2: "calculate_cnpj_dv_digit s [?d1] = Inr [mod11_digit weights (s @ [?d1])]"
    using calculate_cnpj_dv_digit_decimal [of s "[?d1]"] by simp
  have "generate_cnpj_dv s = Inr [?d1, mod11_digit weights (s @ [?d1])]"
    by (simp add: generate_cnpj_dv_def 1 2)
  then show ?thesis
    by (simp add: checkDigits_def weights_def Let_def)
qed

lemma length_checkDigits: "length (checkDigits s) = 2"
  by (simp add: checkDigits_def Let_def)

lemma isdecimal_checkDigits: "c \<in> set (checkDigits s) \<Longrightarrow> isdecimal c"
  by (auto simp: checkDigits_def Let_def isdecimal_mod11_digit)

text \<open>
  Claim C1. On every string of twelve digits \<^verbatim>\<open>_generate_cnpj_dv\<close> returns, without
  raising, the two characters the specification describes: the first from the weights
  5,4,3,2,9,8,7,6,5,4,3,2 over the twelve digits, the second from the weights
  6,5,4,3,2,9,8,7,6,5,4,3,2 over the twelve digits followed by the first check digit, each
  by the rule "sum modulo 11; below 2 gives 0, otherwise 11 minus the remainder". Both
  characters are decimal digits.
\<close>

theorem generate_cnpj_dv_checkDigits:
  assumes "length base12 = 12" and "\<forall>c \<in> set base12. isdecimal c"
  shows "generate_cnpj_dv base12 = Inr (checkDigits base12)
         \<and> length (checkDigits base12) = 2
         \<and> (\<forall>c \<in> set (checkDigits base12). isdecimal c)"
  using assms(2) by (simp add: generate_cnpj_dv_decimal length_checkDigits isdecimal_checkDigits)

theorem generate_cnpj_dv_checkDigits_witness:
  "length ''112223330001'' = 12
   \<and> list_all isdecimal ''112223330001''
   \<and> generate_cnpj_dv ''112223330001'' = Inr ''81''
   \<and> checkDigits ''112223330001'' = ''81''"
proof -
  have h1: "length ''112223330001'' = 12" by simp
  have h2: "\<forall>c \<in> set ''112223330001''. isdecimal c" by (simp add: isdecimal_def)
  have v: "checkDigits ''112223330001'' = ''81''" by code_simp
  show ?thesis
    using generate_cnpj_dv_checkDigits [OF h1 h2] h1 h2 v by (simp add: list_all_iff)
qed

section \<open>Normalisation\<close>

lemma zfill_decimal:
  assumes "\<forall>c \<in> set ds. isdecimal c"
  shows "zfill w ds = replicate (w - length ds) (CHR ''0'') @ ds"
proof (cases ds)
  case Nil
  then show ?thesis by (simp add: zfill_def)
next
  case (Cons c rest)
  with assms have "isdecimal c" by simp
  then have "c \<noteq> CHR ''+''" "c \<noteq> CHR ''-''" by (auto simp: isdecimal_def)
  with Cons show ?thesis by (simp add: zfill_def)
qed


lemma cnpj_only_digits_eq:
  "cnpj_only_digits s =
     (if filter isdecimal s = [] then []
      else replicate (14 - length (filter isdecimal s)) (CHR ''0'') @ filter isdecimal s)"
  by (simp add: cnpj_only_digits_def Let_def zfill_decimal)

lemma isdecimal_zero: "isdecimal (CHR ''0'')"
  by (simp add: isdecimal_def)

lemma cnpj_only_digits_decimal: "c \<in> set (cnpj_only_digits s) \<Longrightarrow> isdecimal c"
  by (auto simp: cnpj_only_digits_eq isdecimal_zero split: if_splits)

lemma length_cnpj_only_digits:
  "length (cnpj_only_digits s) =
     (if filter isdecimal s = [] then 0 else max 14 (length (filter isdecimal s)))"
  by (auto simp: cnpj_only_digits_eq)

lemma cnpj_only_digits_ge_14: "filter isdecimal s \<noteq> [] \<Longrightarrow> 14 \<le> length (cnpj_only_digits s)"
  by (simp add: length_cnpj_only_digits)

text \<open>
  Claim C4, as amended. \<^verbatim>\<open>_cnpj_only_digits\<close> keeps the digits of its input in their order;
  it returns the empty string when there are none and otherwise the digits with zeros added
  on the left up to 14 characters. The result has length 0 when the input has no digit, 14
  when it has between 1 and 14 digits, and the number of digits when it has more than 14.
\<close>

theorem cnpj_only_digits_length:
  "cnpj_only_digits s =
     (if filter isdecimal s = [] then []
      else replicate (14 - length (filter isdecimal s)) (CHR ''0'') @ filter isdecimal s)
   \<and> length (cnpj_only_digits s) =
     (if filter isdecimal s = [] then 0
      else if length (filter isdecimal s) \<le> 14 then 14
      else length (filter isdecimal s))"
  using cnpj_only_digits_eq [of s] by (simp add: length_cnpj_only_digits)

text \<open>
  The claim as stated, "length 0 or exactly 14 for every input", fails on fifteen digits:
  \<^verbatim>\<open>zfill\<close> never shortens a string.
\<close>

theorem cnpj_only_digits_length_counterexample:
  "\<not> (length (cnpj_only_digits ''123456789012345'') = 0
      \<or> length (cnpj_only_digits ''123456789012345'') = 14)"
  by code_simp

section \<open>Splitting and joining\<close>





section \<open>Validation\<close>

lemma is_valid_cnpj_eq:
  "is_valid_cnpj s =
     Inr (1 \<le> length (filter isdecimal s) \<and> length (filter isdecimal s) \<le> 14
          \<and> drop 12 (cnpj_only_digits s) = checkDigits (take 12 (cnpj_only_digits s)))"
proof -
  let ?ds = "filter isdecimal s"
  let ?d = "cnpj_only_digits s"
  consider "?ds = []" | "14 < length ?ds" | "?ds \<noteq> []" "length ?ds \<le> 14" by linarith
  then show ?thesis
  proof cases
    case 1
    then show ?thesis by (simp add: is_valid_cnpj_def cnpj_only_digits_eq)
  next
    case 2
    then have "?ds \<noteq> []" by auto
    with 2 show ?thesis by (simp add: is_valid_cnpj_def length_cnpj_only_digits Let_def)
  next
    case 3
    then have l: "length ?d = 14" by (simp add: length_cnpj_only_digits)
    have "\<forall>c \<in> set (take 12 ?d). isdecimal c"
      by (auto dest: in_set_takeD cnpj_only_digits_decimal)
    then have g: "generate_cnpj_dv (take 12 ?d) = Inr (checkDigits (take 12 ?d))"
      by (rule generate_cnpj_dv_decimal)
    have ne: "?d \<noteq> []" using l by auto
    have "1 \<le> length ?ds" using 3(1) by (cases ?ds) simp_all
    then show ?thesis using 3(2) ne
      by (simp add: is_valid_cnpj_def Let_def l g)
  qed
qed

lemma generate_cnpj_dv_normalised:
  "generate_cnpj_dv (take 12 (cnpj_only_digits s)) = Inr (checkDigits (take 12 (cnpj_only_digits s)))"
proof -
  have "\<forall>c \<in> set (take 12 (cnpj_only_digits s)). isdecimal c"
    by (auto dest: in_set_takeD cnpj_only_digits_decimal)
  then show ?thesis by (rule generate_cnpj_dv_decimal)
qed

lemma is_valid_cnpj_eq_code:
  "is_valid_cnpj s =
     Inr (1 \<le> length (filter isdecimal s) \<and> length (filter isdecimal s) \<le> 14
          \<and> generate_cnpj_dv (take 12 (cnpj_only_digits s)) = Inr (drop 12 (cnpj_only_digits s)))"
  unfolding is_valid_cnpj_eq generate_cnpj_dv_normalised by (simp add: eq_commute)



text \<open>
  Claim C2. With at most 14 digits in the input, \<^verbatim>\<open>_is_valid_cnpj\<close> returns \<^verbatim>\<open>True\<close> exactly
  when there is at least one digit and the last two characters of the digits, left-padded
  with zeros to 14, are what \<^verbatim>\<open>_generate_cnpj_dv\<close> returns on the first twelve. With more
  than 14 digits it returns \<^verbatim>\<open>False\<close>. It raises on no input.
\<close>

theorem is_valid_cnpj_characterisation:
  "(length (filter isdecimal s) \<le> 14 \<longrightarrow>
      is_valid_cnpj s =
        Inr (filter isdecimal s \<noteq> []
             \<and> generate_cnpj_dv
                 (take 12 (replicate (14 - length (filter isdecimal s)) (CHR ''0'')
                           @ filter isdecimal s))
               = Inr (drop 12 (replicate (14 - length (filter isdecimal s)) (CHR ''0'')
                               @ filter isdecimal s))))
   \<and> (14 < length (filter isdecimal s) \<longrightarrow> is_valid_cnpj s = Inr False)
   \<and> (\<exists>b. is_valid_cnpj s = Inr b)"
proof -
  define ds where "ds = filter isdecimal s"
  define p where "p = replicate (14 - length ds) (CHR ''0'') @ ds"
  have e: "is_valid_cnpj s =
             Inr (1 \<le> length ds \<and> length ds \<le> 14
                  \<and> generate_cnpj_dv (take 12 (cnpj_only_digits s))
                    = Inr (drop 12 (cnpj_only_digits s)))"
    unfolding ds_def by (rule is_valid_cnpj_eq_code)
  have a: "is_valid_cnpj s = Inr (ds \<noteq> [] \<and> generate_cnpj_dv (take 12 p) = Inr (drop 12 p))"
    if le: "length ds \<le> 14"
  proof (cases "ds = []")
    case True
    then show ?thesis unfolding e by simp
  next
    case False
    then have d: "cnpj_only_digits s = p"
      unfolding ds_def p_def by (simp add: cnpj_only_digits_eq)
    have "1 \<le> length ds" using False by (cases ds) simp_all
    then show ?thesis unfolding e d using le False by simp
  qed
  have b: "is_valid_cnpj s = Inr False" if "14 < length ds"
    unfolding e using that by simp
  have c: "\<exists>b. is_valid_cnpj s = Inr b"
    unfolding e by blast
  show ?thesis
    using a b c unfolding ds_def p_def by blast
qed


theorem is_valid_cnpj_characterisation_witness:
  "length (filter isdecimal ''11.222.333/0001-81'') = 14
   \<and> is_valid_cnpj ''11.222.333/0001-81'' = Inr True
   \<and> length (filter isdecimal ''12345678901234'') = 14
   \<and> is_valid_cnpj ''12345678901234'' = Inr False
   \<and> length (filter isdecimal ''123456789012345'') = 15
   \<and> is_valid_cnpj ''123456789012345'' = Inr False"
proof -
  have f1: "filter isdecimal ''11.222.333/0001-81'' = ''11222333000181''" by code_simp
  have f2: "filter isdecimal ''12345678901234'' = ''12345678901234''" by code_simp
  have f3: "filter isdecimal ''123456789012345'' = ''123456789012345''" by code_simp
  have g1: "generate_cnpj_dv ''112223330001'' = Inr ''81''" by code_simp
  have g2: "generate_cnpj_dv ''123456789012'' = Inr ''30''" by code_simp
  have v1: "is_valid_cnpj ''11.222.333/0001-81'' = Inr True"
    using is_valid_cnpj_characterisation [of "''11.222.333/0001-81''"]
    unfolding f1 by (simp add: g1)
  have v2: "is_valid_cnpj ''12345678901234'' = Inr False"
    using is_valid_cnpj_characterisation [of "''12345678901234''"]
    unfolding f2 by (simp add: g2)
  have v3: "is_valid_cnpj ''123456789012345'' = Inr False"
    using is_valid_cnpj_characterisation [of "''123456789012345''"]
    unfolding f3 by simp
  show ?thesis unfolding f1 f2 f3 using v1 v2 v3 by simp
qed

text \<open>
  Claim C10. Some input with between 1 and 13 digits is valid: the single character
  \<^verbatim>\<open>0\<close> is normalised to fourteen zeros, the check digits of twelve zeros are \<^verbatim>\<open>00\<close>, and
  \<^verbatim>\<open>_is_valid_cnpj\<close> returns \<^verbatim>\<open>True\<close> on it.
\<close>

theorem short_input_is_valid:
  "(\<exists>s. 1 \<le> length (filter isdecimal s) \<and> length (filter isdecimal s) \<le> 13
        \<and> is_valid_cnpj s = Inr True)
   \<and> length (filter isdecimal ''0'') = 1
   \<and> cnpj_only_digits ''0'' = ''00000000000000''
   \<and> generate_cnpj_dv ''000000000000'' = Inr ''00''
   \<and> is_valid_cnpj ''0'' = Inr True"
proof -
  have v: "is_valid_cnpj ''0'' = Inr True" by code_simp
  have n: "length (filter isdecimal ''0'') = 1" by code_simp
  have d: "cnpj_only_digits ''0'' = ''00000000000000''" by code_simp
  have g: "generate_cnpj_dv ''000000000000'' = Inr ''00''" by code_simp
  have "1 \<le> length (filter isdecimal ''0'') \<and> length (filter isdecimal ''0'') \<le> 13
        \<and> is_valid_cnpj ''0'' = Inr True"
    using v n by simp
  then have "\<exists>s. 1 \<le> length (filter isdecimal s) \<and> length (filter isdecimal s) \<le> 13
        \<and> is_valid_cnpj s = Inr True" ..
  then show ?thesis using v n d g by simp
qed

section \<open>Lookups and mapping\<close>

lemma list14:
  assumes "length d = 14"
  obtains a0 a1 a2 a3 a4 a5 a6 a7 a8 a9 a10 a11 a12 a13 :: 'a
  where "d = [a0, a1, a2, a3, a4, a5, a6, a7, a8, a9, a10, a11, a12, a13]"
  using assms by (auto simp: length_Suc_conv numeral_eq_Suc)

lemma mask_14:
  assumes "length d = 14"
  shows "take 2 d @ ''.'' @ take 3 (drop 2 d) @ ''.'' @ take 3 (drop 5 d)
         @ ''/'' @ take 4 (drop 8 d) @ ''-'' @ drop 12 d =
         [d ! 0, d ! 1, CHR ''.'', d ! 2, d ! 3, d ! 4, CHR ''.'', d ! 5, d ! 6, d ! 7,
          CHR ''/'', d ! 8, d ! 9, d ! 10, d ! 11, CHR ''-'', d ! 12, d ! 13]"
proof -
  from assms obtain a0 a1 a2 a3 a4 a5 a6 a7 a8 a9 a10 a11 a12 a13
    where d: "d = [a0, a1, a2, a3, a4, a5, a6, a7, a8, a9, a10, a11, a12, a13]"
    by (rule list14)
  show ?thesis unfolding d by simp
qed


lemma after_query:
  "cursor_exit (execute cmd data (cursor_enter (connect st))) =
     st\<lparr>open_connections := open_connections st + 1,
        executed := executed st @ [(cmd, data)]\<rparr>"
  by (simp add: cursor_exit_def execute_def cursor_enter_def connect_def)

lemma select_eq:
  "select src cmd data st =
     (case src cmd data of
        Connect_error \<Rightarrow> (Inl DatabaseError, st)
      | Fetched rows \<Rightarrow>
          (Inr rows, st\<lparr>open_connections := open_connections st + 1,
                         executed := executed st @ [(cmd, data)]\<rparr>)
      | _ \<Rightarrow>
          (Inl DatabaseError, st\<lparr>open_connections := open_connections st + 1,
                                   executed := executed st @ [(cmd, data)]\<rparr>))"
  by (simp add: select_def after_query split: fetch.splits)

lemma get_company_invalid:
  "is_valid_cnpj cnpj = Inr False \<Longrightarrow> get_company src cnpj st = (Inl InvalidCNPJException, st)"
  by (simp add: get_company_def)

lemma get_company_valid:
  assumes "is_valid_cnpj cnpj = Inr True"
  shows "get_company src cnpj st =
     (case select src company_command
             [(''cnpj_basico'', take 8 (cnpj_only_digits cnpj)),
              (''cnpj_ordem'', take 4 (drop 8 (cnpj_only_digits cnpj))),
              (''cnpj_dv'', drop 12 (cnpj_only_digits cnpj))] st of
        (Inl e, st') \<Rightarrow> (Inl e, st')
      | (Inr result, st') \<Rightarrow>
          (case result of
             [] \<Rightarrow> (Inr None, st')
           | first # _ \<Rightarrow>
               (case format_company_data first cnpj of
                  Inl e \<Rightarrow> (Inl e, st')
                | Inr c \<Rightarrow> (Inr (Some c), st'))))"
  using assms by (simp add: get_company_def split_cnpj_def Let_def)


lemma get_partners_valid:
  assumes "is_valid_cnpj cnpj = Inr True"
  shows "get_partners src cnpj st =
     (case select src partners_command
             [(''cnpj_basico'', take 8 (cnpj_only_digits cnpj))] st of
        (Inl e, st') \<Rightarrow> (Inl e, st')
      | (Inr results, st') \<Rightarrow>
          (case format_partners results cnpj of
             Inl e \<Rightarrow> (Inl e, st')
           | Inr ps \<Rightarrow> (Inr (length results, ps), st')))"
  using assms by (simp add: get_partners_def split_cnpj_def Let_def)

lemma is_valid_cnpj_cases: "is_valid_cnpj cnpj = Inr True \<or> is_valid_cnpj cnpj = Inr False"
  unfolding is_valid_cnpj_eq by simp

lemma format_company_data_error: "format_company_data r cnpj = Inl e \<Longrightarrow> e = IndexError"
  by (simp add: format_company_data_def Let_def split: prod.splits if_splits)

lemma format_company_data_total:
  "39 \<le> length r \<Longrightarrow> \<exists>c. format_company_data r cnpj = Inr c"
  by (simp add: format_company_data_def Let_def split: prod.splits)

lemma format_company_data_short:
  "length r < 39 \<Longrightarrow> format_company_data r cnpj = Inl IndexError"
  by (simp add: format_company_data_def Let_def split: prod.splits)

lemma format_partner_data_total:
  "11 \<le> length r \<Longrightarrow> \<exists>p. format_partner_data r cnpj = Inr p"
  by (simp add: format_partner_data_def Let_def split: prod.splits)


text \<open>
  Claim C3. \<^verbatim>\<open>get_company\<close> raises \<^verbatim>\<open>InvalidCNPJException\<close> exactly when \<^verbatim>\<open>_is_valid_cnpj\<close> is
  false, and then nothing has been connected to or executed: the state is the one before the
  call. On a valid identifier it issues the one command with the three components as
  parameters; zero rows give \<^verbatim>\<open>None\<close>, and otherwise the result is the mapping of the first
  row alone, whatever rows follow it. A first row of at least 39 columns is mapped to a
  company.
\<close>

theorem get_company_outcomes:
  assumes data: "data = [(''cnpj_basico'', take 8 (cnpj_only_digits cnpj)),
                         (''cnpj_ordem'', take 4 (drop 8 (cnpj_only_digits cnpj))),
                         (''cnpj_dv'', drop 12 (cnpj_only_digits cnpj))]"
    and queried: "queried = st\<lparr>open_connections := open_connections st + 1,
                                 executed := executed st @ [(company_command, data)]\<rparr>"
  shows "((\<exists>st'. get_company src cnpj st = (Inl InvalidCNPJException, st'))
            \<longleftrightarrow> is_valid_cnpj cnpj = Inr False)
       \<and> (is_valid_cnpj cnpj = Inr False \<longrightarrow>
            get_company src cnpj st = (Inl InvalidCNPJException, st))
       \<and> (is_valid_cnpj cnpj = Inr True \<and> src company_command data = Fetched [] \<longrightarrow>
            get_company src cnpj st = (Inr None, queried))
       \<and> (is_valid_cnpj cnpj = Inr True \<and> src company_command data = Fetched (first # others) \<longrightarrow>
            get_company src cnpj st =
              (case format_company_data first cnpj of
                 Inl e \<Rightarrow> Inl e
               | Inr c \<Rightarrow> Inr (Some c), queried))
       \<and> (39 \<le> length first \<longrightarrow> (\<exists>c. format_company_data first cnpj = Inr c))"
proof (intro conjI impI)
  show "(\<exists>st'. get_company src cnpj st = (Inl InvalidCNPJException, st'))
          \<longleftrightarrow> is_valid_cnpj cnpj = Inr False"
  proof
    assume raised: "\<exists>st'. get_company src cnpj st = (Inl InvalidCNPJException, st')"
    show "is_valid_cnpj cnpj = Inr False"
    proof (rule ccontr)
      assume "is_valid_cnpj cnpj \<noteq> Inr False"
      then have v: "is_valid_cnpj cnpj = Inr True" using is_valid_cnpj_cases [of cnpj] by blast
      have "fst (get_company src cnpj st) \<noteq> Inl InvalidCNPJException"
        unfolding get_company_valid [OF v] select_eq
        by (auto split: fetch.splits list.splits sum.splits dest: format_company_data_error)
      with raised show False by auto
    qed
  next
    assume "is_valid_cnpj cnpj = Inr False"
    then show "\<exists>st'. get_company src cnpj st = (Inl InvalidCNPJException, st')"
      by (simp add: get_company_invalid)
  qed
next
  assume "is_valid_cnpj cnpj = Inr False"
  then show "get_company src cnpj st = (Inl InvalidCNPJException, st)"
    by (rule get_company_invalid)
next
  assume "is_valid_cnpj cnpj = Inr True \<and> src company_command data = Fetched []"
  then show "get_company src cnpj st = (Inr None, queried)"
    unfolding data queried by (simp add: get_company_valid select_eq)
next
  assume "is_valid_cnpj cnpj = Inr True \<and> src company_command data = Fetched (first # others)"
  then show "get_company src cnpj st =
              (case format_company_data first cnpj of
                 Inl e \<Rightarrow> Inl e
               | Inr c \<Rightarrow> Inr (Some c), queried)"
    unfolding data queried by (simp add: get_company_valid select_eq split: sum.splits)
next
  assume "39 \<le> length first"
  then show "\<exists>c. format_company_data first cnpj = Inr c"
    by (rule format_company_data_total)
qed

theorem get_company_outcomes_witness:
  "get_company (\<lambda>cmd data. Fetched []) ''''
       \<lparr>open_connections = 0, open_cursors = 0, executed = []\<rparr>
     = (Inl InvalidCNPJException, \<lparr>open_connections = 0, open_cursors = 0, executed = []\<rparr>)
   \<and> is_valid_cnpj ''11222333000181'' = Inr True
   \<and> get_company (\<lambda>cmd data. Fetched []) ''11222333000181''
       \<lparr>open_connections = 0, open_cursors = 0, executed = []\<rparr>
     = (Inr None,
        \<lparr>open_connections = 1, open_cursors = 0,
         executed = [(company_command,
                      [(''cnpj_basico'', ''11222333''), (''cnpj_ordem'', ''0001''),
                       (''cnpj_dv'', ''81'')])]\<rparr>)
   \<and> (\<exists>c. fst (get_company (\<lambda>cmd data. Fetched [replicate 39 PyNone, []]) ''11222333000181''
                  \<lparr>open_connections = 0, open_cursors = 0, executed = []\<rparr>)
            = Inr (Some c))"
proof -
  let ?st = "\<lparr>open_connections = 0, open_cursors = 0, executed = []\<rparr>"
  have inv: "is_valid_cnpj '''' = Inr False" by code_simp
  have val: "is_valid_cnpj ''11222333000181'' = Inr True" by code_simp
  have d: "cnpj_only_digits ''11222333000181'' = ''11222333000181''" by code_simp
  have 1: "get_company (\<lambda>cmd data. Fetched []) '''' ?st = (Inl InvalidCNPJException, ?st)"
    using get_company_outcomes [OF refl refl, where cnpj = "''''" and st = ?st
        and src = "\<lambda>cmd data. Fetched []"] inv
    by blast
  have 2: "get_company (\<lambda>cmd data. Fetched []) ''11222333000181'' ?st
     = (Inr None,
        \<lparr>open_connections = 1, open_cursors = 0,
         executed = [(company_command,
                      [(''cnpj_basico'', ''11222333''), (''cnpj_ordem'', ''0001''),
                       (''cnpj_dv'', ''81'')])]\<rparr>)"
    using get_company_outcomes [OF refl refl, where cnpj = "''11222333000181''" and st = ?st
        and src = "\<lambda>cmd data. Fetched []"] val
    unfolding d by simp
  have l: "39 \<le> length (replicate 39 PyNone)" by simp
  have 3: "\<exists>c. fst (get_company (\<lambda>cmd data. Fetched [replicate 39 PyNone, []]) ''11222333000181'' ?st)
            = Inr (Some c)"
    using get_company_outcomes [OF refl refl, where cnpj = "''11222333000181''" and st = ?st
        and src = "\<lambda>cmd data. Fetched [replicate 39 PyNone, []]"
        and first = "replicate 39 PyNone" and others = "[[]]"] val l
    by (auto split: sum.splits)
  show ?thesis using 1 val 2 3 by blast
qed

lemma format_partners_Inr:
  "format_partners rows cnpj = Inr ps \<Longrightarrow>
   length ps = length rows \<and> (\<forall>i < length rows. format_partner_data (rows ! i) cnpj = Inr (ps ! i))"
proof (induction rows arbitrary: ps)
  case Nil
  then show ?case by simp
next
  case (Cons r rows)
  from Cons.prems obtain p ps' where p: "format_partner_data r cnpj = Inr p"
    and ps': "format_partners rows cnpj = Inr ps'" and ps: "ps = p # ps'"
    by (auto split: sum.splits)
  from Cons.IH [OF ps'] have ih: "length ps' = length rows"
    "\<And>i. i < length rows \<Longrightarrow> format_partner_data (rows ! i) cnpj = Inr (ps' ! i)"
    by simp_all
  show ?case
  proof (intro conjI allI impI)
    show "length ps = length (r # rows)" using ih(1) ps by simp
  next
    fix i assume "i < length (r # rows)"
    then show "format_partner_data ((r # rows) ! i) cnpj = Inr (ps ! i)"
      using p ih(2) ps by (cases i) simp_all
  qed
qed

lemma format_partners_total:
  "\<forall>r \<in> set rows. 11 \<le> length r \<Longrightarrow> \<exists>ps. format_partners rows cnpj = Inr ps"
proof (induction rows)
  case Nil
  then show ?case by simp
next
  case (Cons r rows)
  then obtain ps where "format_partners rows cnpj = Inr ps" by auto
  moreover from Cons.prems obtain p where "format_partner_data r cnpj = Inr p"
    using format_partner_data_total [of r cnpj] by auto
  ultimately show ?case by simp
qed

text \<open>
  Claim C7. On a valid identifier \<^verbatim>\<open>get_partners\<close> executes one command, which filters on
  the base column alone and whose only parameter is the 8-digit base. When the rows come back
  and each has the 11 columns the mapper reads, the result is the number of rows paired with
  a list of that length whose i-th element is the mapping of the i-th row.
\<close>

theorem get_partners_result:
  assumes valid: "is_valid_cnpj cnpj = Inr True"
    and rows: "src partners_command [(''cnpj_basico'', take 8 (cnpj_only_digits cnpj))] = Fetched rows"
    and wide: "\<forall>r \<in> set rows. 11 \<le> length r"
  shows "length (take 8 (cnpj_only_digits cnpj)) = 8
       \<and> (\<exists>ps. get_partners src cnpj st =
               (Inr (length rows, ps),
                st\<lparr>open_connections := open_connections st + 1,
                   executed := executed st @
                     [(partners_command, [(''cnpj_basico'', take 8 (cnpj_only_digits cnpj))])]\<rparr>)
            \<and> length ps = length rows
            \<and> (\<forall>i < length rows. format_partner_data (rows ! i) cnpj = Inr (ps ! i)))"
proof -
  from valid have "filter isdecimal cnpj \<noteq> []"
    unfolding is_valid_cnpj_eq by auto
  then have base: "length (take 8 (cnpj_only_digits cnpj)) = 8"
    using cnpj_only_digits_ge_14 [of cnpj] by simp
  from format_partners_total [OF wide] obtain ps where ps: "format_partners rows cnpj = Inr ps"
    by blast
  have "get_partners src cnpj st =
               (Inr (length rows, ps),
                st\<lparr>open_connections := open_connections st + 1,
                   executed := executed st @
                     [(partners_command, [(''cnpj_basico'', take 8 (cnpj_only_digits cnpj))])]\<rparr>)"
    by (simp add: get_partners_valid [OF valid] select_eq rows ps)
  with format_partners_Inr [OF ps] base show ?thesis by blast
qed

theorem get_partners_result_witness:
  "is_valid_cnpj ''11222333000181'' = Inr True
   \<and> (\<exists>p1 p2 p3.
        get_partners
          (\<lambda>cmd data. Fetched [replicate 11 (PyStr ''a''), replicate 11 (PyInt 7), replicate 11 PyNone])
          ''11222333000181'' \<lparr>open_connections = 0, open_cursors = 0, executed = []\<rparr>
          = (Inr (3, [p1, p2, p3]),
             \<lparr>open_connections = 1, open_cursors = 0,
              executed = [(partners_command, [(''cnpj_basico'', ''11222333'')])]\<rparr>)
        \<and> format_partner_data (replicate 11 (PyStr ''a'')) ''11222333000181'' = Inr p1
        \<and> format_partner_data (replicate 11 (PyInt 7)) ''11222333000181'' = Inr p2
        \<and> format_partner_data (replicate 11 PyNone) ''11222333000181'' = Inr p3)"
proof -
  let ?st = "\<lparr>open_connections = 0, open_cursors = 0, executed = []\<rparr>"
  let ?rows = "[replicate 11 (PyStr ''a''), replicate 11 (PyInt 7), replicate 11 PyNone]"
  let ?src = "\<lambda>(cmd :: command) (data :: params). Fetched ?rows"
  have val: "is_valid_cnpj ''11222333000181'' = Inr True" by code_simp
  have d: "cnpj_only_digits ''11222333000181'' = ''11222333000181''" by code_simp
  have rows: "?src partners_command [(''cnpj_basico'', take 8 (cnpj_only_digits ''11222333000181''))]
              = Fetched ?rows" by simp
  have wide: "\<forall>r \<in> set ?rows. 11 \<le> length r" by simp
  from get_partners_result [OF val rows wide, of ?st] obtain ps where
    g: "get_partners ?src ''11222333000181'' ?st =
          (Inr (length ?rows, ps),
           ?st\<lparr>open_connections := open_connections ?st + 1,
               executed := executed ?st @
                 [(partners_command, [(''cnpj_basico'', take 8 (cnpj_only_digits ''11222333000181''))])]\<rparr>)"
    and n: "length ps = length ?rows"
    and m: "\<forall>i < length ?rows. format_partner_data (?rows ! i) ''11222333000181'' = Inr (ps ! i)"
    by blast
  from n obtain p1 p2 p3 where ps: "ps = [p1, p2, p3]"
    by (auto simp: length_Suc_conv numeral_3_eq_3)
  have m0: "format_partner_data (?rows ! 0) ''11222333000181'' = Inr (ps ! 0)"
    using m [rule_format, of 0] by simp
  have m1: "format_partner_data (?rows ! 1) ''11222333000181'' = Inr (ps ! 1)"
    using m [rule_format, of 1] by simp
  have m2: "format_partner_data (?rows ! 2) ''11222333000181'' = Inr (ps ! 2)"
    using m [rule_format, of 2] by simp
  have g': "get_partners ?src ''11222333000181'' ?st
          = (Inr (3, [p1, p2, p3]),
             \<lparr>open_connections = 1, open_cursors = 0,
              executed = [(partners_command, [(''cnpj_basico'', ''11222333'')])]\<rparr>)"
    using g unfolding d ps by simp
  show ?thesis using val g' m0 m1 m2 unfolding ps by auto
qed

lemma format_company_data_identifier:
  assumes "format_company_data r cnpj = Inr c"
  shows "company.cnpj_completo c = format_full_cnpj cnpj"
    and "company.cnpj_completo_apenas_numeros c = cnpj_only_digits cnpj"
    and "(company.cnpj_basico c, company.cnpj_ordem c, company.cnpj_dv c) = split_cnpj cnpj"
  using assms by (auto simp: format_company_data_def Let_def split: prod.splits if_splits)

text \<open>
  Claim C8. For every input with between 1 and 14 digits, valid or not, the normalised form
  has 14 digits and \<^verbatim>\<open>_format_full_cnpj\<close> lays them out as \<^verbatim>\<open>NN.NNN.NNN/NNNN-NN\<close>. In
  particular \<^verbatim>\<open>get_company("11222333000181")\<close>, when its command brings back one row with the
  39 columns the mapper reads, returns a company whose \<^verbatim>\<open>cnpj_completo\<close> is
  \<^verbatim>\<open>11.222.333/0001-81\<close>.
\<close>

theorem format_full_cnpj_pattern:
  "(1 \<le> length (filter isdecimal s) \<and> length (filter isdecimal s) \<le> 14 \<longrightarrow>
      length (cnpj_only_digits s) = 14
      \<and> list_all isdecimal (cnpj_only_digits s)
      \<and> (let d = cnpj_only_digits s
         in format_full_cnpj s =
              [d ! 0, d ! 1, CHR ''.'', d ! 2, d ! 3, d ! 4, CHR ''.'', d ! 5, d ! 6, d ! 7,
               CHR ''/'', d ! 8, d ! 9, d ! 10, d ! 11, CHR ''-'', d ! 12, d ! 13]))
   \<and> (src company_command
          [(''cnpj_basico'', ''11222333''), (''cnpj_ordem'', ''0001''), (''cnpj_dv'', ''81'')]
        = Fetched [r] \<and> 39 \<le> length r \<longrightarrow>
      (\<exists>c. fst (get_company src ''11222333000181'' st) = Inr (Some c)
           \<and> company.cnpj_completo c = ''11.222.333/0001-81''))"
proof (intro conjI impI)
  assume n: "1 \<le> length (filter isdecimal s) \<and> length (filter isdecimal s) \<le> 14"
  then have ne: "filter isdecimal s \<noteq> []" by auto
  with n show l: "length (cnpj_only_digits s) = 14"
    by (simp add: length_cnpj_only_digits)
  show "list_all isdecimal (cnpj_only_digits s)"
    by (simp add: list_all_iff cnpj_only_digits_decimal)
  show "let d = cnpj_only_digits s
         in format_full_cnpj s =
              [d ! 0, d ! 1, CHR ''.'', d ! 2, d ! 3, d ! 4, CHR ''.'', d ! 5, d ! 6, d ! 7,
               CHR ''/'', d ! 8, d ! 9, d ! 10, d ! 11, CHR ''-'', d ! 12, d ! 13]"
    unfolding Let_def format_full_cnpj_def by (rule mask_14 [OF l])
next
  assume a: "src company_command
          [(''cnpj_basico'', ''11222333''), (''cnpj_ordem'', ''0001''), (''cnpj_dv'', ''81'')]
        = Fetched [r] \<and> 39 \<le> length r"
  have val: "is_valid_cnpj ''11222333000181'' = Inr True" by code_simp
  have d1: "take 8 (cnpj_only_digits ''11222333000181'') = ''11222333''" by code_simp
  have d2: "take 4 (drop 8 (cnpj_only_digits ''11222333000181'')) = ''0001''" by code_simp
  have d3: "drop 12 (cnpj_only_digits ''11222333000181'') = ''81''" by code_simp
  have f: "format_full_cnpj ''11222333000181'' = ''11.222.333/0001-81''" by code_simp
  from a format_company_data_total obtain c
    where c: "format_company_data r ''11222333000181'' = Inr c" by blast
  have "fst (get_company src ''11222333000181'' st) = Inr (Some c)"
    unfolding get_company_valid [OF val] d1 d2 d3 select_eq using a c by simp
  moreover have "company.cnpj_completo c = ''11.222.333/0001-81''"
    using format_company_data_identifier(1) [OF c] f by simp
  ultimately show "\<exists>c. fst (get_company src ''11222333000181'' st) = Inr (Some c)
           \<and> company.cnpj_completo c = ''11.222.333/0001-81''" by blast
qed

theorem format_full_cnpj_pattern_witness:
  "format_full_cnpj ''12345678901234'' = ''12.345.678/9012-34''
   \<and> format_full_cnpj ''1-9'' = ''00.000.000/0000-19''
   \<and> (\<exists>c. fst (get_company (\<lambda>cmd data. Fetched [replicate 39 (PyStr ''None'')]) ''11222333000181''
                 \<lparr>open_connections = 0, open_cursors = 0, executed = []\<rparr>) = Inr (Some c)
           \<and> company.cnpj_completo c = ''11.222.333/0001-81'')"
proof -
  let ?st = "\<lparr>open_connections = 0, open_cursors = 0, executed = []\<rparr>"
  let ?src = "\<lambda>(cmd :: command) (data :: params). Fetched [replicate 39 (PyStr ''None'')]"
  have n1: "1 \<le> length (filter isdecimal ''12345678901234'')
            \<and> length (filter isdecimal ''12345678901234'') \<le> 14" by code_simp
  have n2: "1 \<le> length (filter isdecimal ''1-9'') \<and> length (filter isdecimal ''1-9'') \<le> 14"
    by code_simp
  have d1: "cnpj_only_digits ''12345678901234'' = ''12345678901234''" by code_simp
  have d2: "cnpj_only_digits ''1-9'' = ''00000000000019''" by code_simp
  have r: "?src company_command
          [(''cnpj_basico'', ''11222333''), (''cnpj_ordem'', ''0001''), (''cnpj_dv'', ''81'')]
        = Fetched [replicate 39 (PyStr ''None'')] \<and> 39 \<le> length (replicate 39 (PyStr ''None''))"
    by simp
  have 1: "format_full_cnpj ''12345678901234'' = ''12.345.678/9012-34''"
    using format_full_cnpj_pattern [of "''12345678901234''" ?src "replicate 39 (PyStr ''None'')" ?st] n1
    unfolding d1 Let_def by simp
  have 2: "format_full_cnpj ''1-9'' = ''00.000.000/0000-19''"
    using format_full_cnpj_pattern [of "''1-9''" ?src "replicate 39 (PyStr ''None'')" ?st] n2
    unfolding d2 Let_def by simp
  have 3: "\<exists>c. fst (get_company ?src ''11222333000181'' ?st) = Inr (Some c)
           \<and> company.cnpj_completo c = ''11.222.333/0001-81''"
    using format_full_cnpj_pattern [of "''1-9''" ?src "replicate 39 (PyStr ''None'')" ?st] r
    by blast
  show ?thesis using 1 2 3 by blast
qed

lemma format_company_data_fields:
  assumes "format_company_data row cnpj = Inr c"
  shows "company.identificador_matriz_filial c = always_str_or_none (row ! 3)
       \<and> company.nome_fantasia c = always_str_or_none (row ! 4)
       \<and> company.situacao_cadastral c = always_str_or_none (row ! 5)
       \<and> company.data_situacao_cadastral c = always_str_or_none (row ! 6)
       \<and> company.motivo_situacao_cadastral c = always_str_or_none (row ! 7)
       \<and> company.nome_cidade_exterior c = always_str_or_none (row ! 8)
       \<and> company.data_inicio_atividade c = always_str_or_none (row ! 9)
       \<and> company.cnae_fiscal_secundario c = always_str_or_none (row ! 10)
       \<and> company.tipo_logradouro c = always_str_or_none (row ! 11)
       \<and> company.logradouro c = always_str_or_none (row ! 12)
       \<and> company.numero c = always_str_or_none (row ! 13)
       \<and> company.complemento c = always_str_or_none (row ! 14)
       \<and> company.bairro c = always_str_or_none (row ! 15)
       \<and> company.cep c = always_str_or_none (row ! 16)
       \<and> company.uf c = always_str_or_none (row ! 17)
       \<and> company.ddd_telefone_1 c = always_str_or_none (row ! 18)
       \<and> company.ddd_telefone_2 c = always_str_or_none (row ! 19)
       \<and> company.ddd_telefone_fax c = always_str_or_none (row ! 20)
       \<and> company.correio_eletronico c = always_str_or_none (row ! 21)
       \<and> company.situacao_especial c = always_str_or_none (row ! 22)
       \<and> company.data_situacao_especial c = always_str_or_none (row ! 23)
       \<and> company.pais c = always_str_or_none (row ! 24)
       \<and> company.municipio c = always_str_or_none (row ! 25)
       \<and> company.razao_social c = always_str_or_none (row ! 26)
       \<and> company.natureza_juridica c = always_str_or_none (row ! 27)
       \<and> company.qualificacao_do_responsavel c = always_str_or_none (row ! 28)
       \<and> company.capital_social c = always_str_or_none (row ! 29)
       \<and> company.porte c = always_str_or_none (row ! 30)
       \<and> company.ente_federativo_responsavel c = always_str_or_none (row ! 31)
       \<and> company.opcao_pelo_simples c = always_str_or_none (row ! 32)
       \<and> company.data_opcao_pelo_simples c = always_str_or_none (row ! 33)
       \<and> company.data_exclusao_pelo_simples c = always_str_or_none (row ! 34)
       \<and> company.opcao_pelo_mei c = always_str_or_none (row ! 35)
       \<and> company.data_opcao_pelo_mei c = always_str_or_none (row ! 36)
       \<and> company.data_exclusao_pelo_mei c = always_str_or_none (row ! 37)
       \<and> company.cnae c = always_str_or_none (row ! 38)"
proof -
  from assms have l: "39 \<le> length row"
    by (simp add: format_company_data_def Let_def split: prod.splits if_splits)
  then have n: "\<And>i. i < 39 \<Longrightarrow> map always_str_or_none row ! i = always_str_or_none (row ! i)"
    by simp
  from assms l show ?thesis
    by (auto simp: format_company_data_def Let_def n split: prod.splits)
qed

lemma format_partner_data_fields:
  assumes "format_partner_data row cnpj = Inr p"
  shows "partner.identificador_socio p = always_str_or_none (row ! 1)
       \<and> partner.razao_social p = always_str_or_none (row ! 2)
       \<and> partner.cnpj_cpf_socio p = always_str_or_none (row ! 3)
       \<and> partner.qualificacao_socio p = always_str_or_none (row ! 4)
       \<and> partner.data_entrada_sociedade p = always_str_or_none (row ! 5)
       \<and> partner.pais_socio_estrangeiro p = always_str_or_none (row ! 6)
       \<and> partner.numero_cpf_representante_legal p = always_str_or_none (row ! 7)
       \<and> partner.nome_representante_legal p = always_str_or_none (row ! 8)
       \<and> partner.qualificacao_representante_legal p = always_str_or_none (row ! 9)
       \<and> partner.faixa_etaria p = always_str_or_none (row ! 10)"
proof -
  from assms have l: "11 \<le> length row"
    by (simp add: format_partner_data_def Let_def split: prod.splits if_splits)
  then have n: "\<And>i. i < 11 \<Longrightarrow> map always_str_or_none row ! i = always_str_or_none (row ! i)"
    by simp
  from assms l show ?thesis
    by (auto simp: format_partner_data_def Let_def n split: prod.splits)
qed

text \<open>
  Claim C6. \<^verbatim>\<open>_always_str_or_none\<close> sends the string \<^verbatim>\<open>None\<close>, the empty string and \<^verbatim>\<open>None\<close> to
  \<^verbatim>\<open>None\<close>, a value that is neither a string nor \<^verbatim>\<open>None\<close> to its \<^verbatim>\<open>str\<close> form (an integer to its
  decimal notation), and any other string to itself. Every field of a mapped company or
  partner that is read from a row position is this function applied to the column at that
  position.
\<close>

theorem always_str_or_none_rule:
  "always_str_or_none (PyStr ''None'') = None
   \<and> always_str_or_none (PyStr []) = None
   \<and> always_str_or_none PyNone = None
   \<and> always_str_or_none (PyInt i) = Some (str_int i)
   \<and> always_str_or_none (PyInt 42) = Some ''42''
   \<and> always_str_or_none (PyObj repr) = Some repr
   \<and> ((\<forall>v. data \<noteq> PyStr v) \<and> data \<noteq> PyNone \<longrightarrow> always_str_or_none data = Some (py_str data))
   \<and> (v \<noteq> ''None'' \<and> v \<noteq> [] \<longrightarrow> always_str_or_none (PyStr v) = Some v)
   \<and> (format_company_data row cnpj = Inr c \<longrightarrow>
          company.identificador_matriz_filial c = always_str_or_none (row ! 3)
          \<and> company.nome_fantasia c = always_str_or_none (row ! 4)
          \<and> company.situacao_cadastral c = always_str_or_none (row ! 5)
          \<and> company.data_situacao_cadastral c = always_str_or_none (row ! 6)
          \<and> company.motivo_situacao_cadastral c = always_str_or_none (row ! 7)
          \<and> company.nome_cidade_exterior c = always_str_or_none (row ! 8)
          \<and> company.data_inicio_atividade c = always_str_or_none (row ! 9)
          \<and> company.cnae_fiscal_secundario c = always_str_or_none (row ! 10)
          \<and> company.tipo_logradouro c = always_str_or_none (row ! 11)
          \<and> company.logradouro c = always_str_or_none (row ! 12)
          \<and> company.numero c = always_str_or_none (row ! 13)
          \<and> company.complemento c = always_str_or_none (row ! 14)
          \<and> company.bairro c = always_str_or_none (row ! 15)
          \<and> company.cep c = always_str_or_none (row ! 16)
          \<and> company.uf c = always_str_or_none (row ! 17)
          \<and> company.ddd_telefone_1 c = always_str_or_none (row ! 18)
          \<and> company.ddd_telefone_2 c = always_str_or_none (row ! 19)
          \<and> company.ddd_telefone_fax c = always_str_or_none (row ! 20)
          \<and> company.correio_eletronico c = always_str_or_none (row ! 21)
          \<and> company.situacao_especial c = always_str_or_none (row ! 22)
          \<and> company.data_situacao_especial c = always_str_or_none (row ! 23)
          \<and> company.pais c = always_str_or_none (row ! 24)
          \<and> company.municipio c = always_str_or_none (row ! 25)
          \<and> company.razao_social c = always_str_or_none (row ! 26)
          \<and> company.natureza_juridica c = always_str_or_none (row ! 27)
          \<and> company.qualificacao_do_responsavel c = always_str_or_none (row ! 28)
          \<and> company.capital_social c = always_str_or_none (row ! 29)
          \<and> company.porte c = always_str_or_none (row ! 30)
          \<and> company.ente_federativo_responsavel c = always_str_or_none (row ! 31)
          \<and> company.opcao_pelo_simples c = always_str_or_none (row ! 32)
          \<and> company.data_opcao_pelo_simples c = always_str_or_none (row ! 33)
          \<and> company.data_exclusao_pelo_simples c = always_str_or_none (row ! 34)
          \<and> company.opcao_pelo_mei c = always_str_or_none (row ! 35)
          \<and> company.data_opcao_pelo_mei c = always_str_or_none (row ! 36)
          \<and> company.data_exclusao_pelo_mei c = always_str_or_none (row ! 37)
          \<and> company.cnae c = always_str_or_none (row ! 38))
   \<and> (format_partner_data row cnpj = Inr p \<longrightarrow>
          partner.identificador_socio p = always_str_or_none (row ! 1)
          \<and> partner.razao_social p = always_str_or_none (row ! 2)
          \<and> partner.cnpj_cpf_socio p = always_str_or_none (row ! 3)
          \<and> partner.qualificacao_socio p = always_str_or_none (row ! 4)
          \<and> partner.data_entrada_sociedade p = always_str_or_none (row ! 5)
          \<and> partner.pais_socio_estrangeiro p = always_str_or_none (row ! 6)
          \<and> partner.numero_cpf_representante_legal p = always_str_or_none (row ! 7)
          \<and> partner.nome_representante_legal p = always_str_or_none (row ! 8)
          \<and> partner.qualificacao_representante_legal p = always_str_or_none (row ! 9)
          \<and> partner.faixa_etaria p = always_str_or_none (row ! 10))"
proof (intro conjI impI)
  show "always_str_or_none (PyInt 42) = Some ''42''" by code_simp
next
  assume "(\<forall>v. data \<noteq> PyStr v) \<and> data \<noteq> PyNone"
  then show "always_str_or_none data = Some (py_str data)"
    by (cases data) (simp_all add: always_str_or_none_def)
next
  assume "v \<noteq> ''None'' \<and> v \<noteq> []"
  then show "always_str_or_none (PyStr v) = Some v"
    by (simp add: always_str_or_none_def)
qed (simp_all add: always_str_or_none_def format_company_data_fields format_partner_data_fields)

theorem always_str_or_none_rule_witness:
  "always_str_or_none (PyStr ''ACME'') = Some ''ACME''
   \<and> always_str_or_none (PyObj ''2020-01-31'') = Some ''2020-01-31''
   \<and> (\<exists>c. format_company_data
              (replicate 4 (PyStr ''None'') @ [PyStr ''ACME''] @ replicate 34 (PyInt 7)) ''0'' = Inr c
          \<and> company.identificador_matriz_filial c = None
          \<and> company.nome_fantasia c = Some ''ACME''
          \<and> company.cnae c = Some ''7'')
   \<and> (\<exists>p. format_partner_data (replicate 11 (PyInt 42)) ''0'' = Inr p
          \<and> partner.razao_social p = Some ''42'')"
proof -
  let ?row = "replicate 4 (PyStr ''None'') @ [PyStr ''ACME''] @ replicate 34 (PyInt 7)"
  let ?prow = "replicate 11 (PyInt 42)"
  have "39 \<le> length ?row" by simp
  then obtain c where c: "format_company_data ?row ''0'' = Inr c"
    using format_company_data_total [of ?row "''0''"] by blast
  have "11 \<le> length ?prow" by simp
  then obtain p where p: "format_partner_data ?prow ''0'' = Inr p"
    using format_partner_data_total [of ?prow "''0''"] by blast
  note rule = always_str_or_none_rule [where data = "PyObj ''2020-01-31''" and v = "''ACME''"
      and row = ?row and cnpj = "''0''" and c = c and i = 42 and repr = "''x''"]
  note prule = always_str_or_none_rule [where data = "PyObj ''2020-01-31''" and v = "''ACME''"
      and row = ?prow and cnpj = "''0''" and p = p and i = 42 and repr = "''x''"]
  have r3: "?row ! 3 = PyStr ''None''" by code_simp
  have r4: "?row ! 4 = PyStr ''ACME''" by code_simp
  have r38: "?row ! 38 = PyInt 7" by code_simp
  have s7: "always_str_or_none (PyInt 7) = Some ''7''" by code_simp
  have q2: "?prow ! 2 = PyInt 42" by simp
  have ne: "''ACME'' \<noteq> ''None'' \<and> ''ACME'' \<noteq> []" by simp
  have 1: "always_str_or_none (PyStr ''ACME'') = Some ''ACME''"
    using rule ne by blast
  have 2: "always_str_or_none (PyObj ''2020-01-31'') = Some ''2020-01-31''"
    using rule by simp
  have f3: "company.identificador_matriz_filial c = always_str_or_none (?row ! 3)"
    and f4: "company.nome_fantasia c = always_str_or_none (?row ! 4)"
    and f38: "company.cnae c = always_str_or_none (?row ! 38)"
    using rule c by blast+
  have g2: "partner.razao_social p = always_str_or_none (?prow ! 2)"
    using prule p by blast
  have 3: "company.identificador_matriz_filial c = None"
    unfolding f3 r3 using rule by blast
  have 4: "company.nome_fantasia c = Some ''ACME''"
    unfolding f4 r4 by (rule 1)
  have 5: "company.cnae c = Some ''7''"
    unfolding f38 r38 by (rule s7)
  have 6: "partner.razao_social p = Some ''42''"
    unfolding g2 q2 using prule by blast
  show ?thesis using 1 2 c 3 4 5 p 6 by blast
qed


lemma select_refused:
  "src cmd data = Connect_error \<Longrightarrow> select src cmd data st = (Inl DatabaseError, st)"
  by (simp add: select_eq)






end
